theory Spec2Isabelle
  imports Main
begin

section \<open>Market positions of the Polymarket subgraph\<close>

text \<open>
  A shallow embedding of \<^verbatim>\<open>src/utils/market-positions-utils.ts\<close>. The mapping
  handlers read and write entities of the subgraph store and call \<^verbatim>\<open>log.error\<close>;
  here the store and the log are one record, \<open>world\<close>, that every handler takes and
  returns. A handler that the runtime would stop (a field read on \<^verbatim>\<open>null\<close>, an
  array read out of range, a division by zero, a number that the 32-bit conversion refuses) returns
  \<open>Faulted\<close> with the world as it was when it stopped.
\<close>

subsection \<open>BigInt and arrays of the runtime\<close>

text \<open>
  \<^verbatim>\<open>BigInt\<close> is an integer of any size: \<open>int\<close>. \<^verbatim>\<open>plus\<close>, \<^verbatim>\<open>minus\<close>,
  \<^verbatim>\<open>times\<close>, \<^verbatim>\<open>lt\<close> and \<^verbatim>\<open>gt\<close> are \<open>+\<close>, \<open>-\<close>, \<open>*\<close>, \<open><\<close>
  and \<open>>\<close>.
\<close>

datatype fault = NullDereference | IndexOutOfRange | DivisionByZero | I32Overflow | EmptyArray

datatype outcome = Returned | Faulted fault

text \<open>
  \<^verbatim>\<open>BigInt.div\<close>: the quotient rounded towards zero; the runtime stops the handler
  on a zero divisor.
\<close>

definition trunc_quot :: "int \<Rightarrow> int \<Rightarrow> int" where
  "trunc_quot a b = sgn a * sgn b * (\<bar>a\<bar> div \<bar>b\<bar>)"

definition bigint_div :: "int \<Rightarrow> int \<Rightarrow> fault + int" where
  "bigint_div a b = (if b = 0 then Inl DivisionByZero else Inr (trunc_quot a b))"

text \<open>
  \<^verbatim>\<open>BigInt.toI32\<close>. A \<^verbatim>\<open>BigInt\<close> is its two's complement bytes, lowest first and
  as few as hold the value with its sign. The conversion stops the handler when a byte
  after the fourth is not the sign padding, which is the case exactly for the values
  outside \<open>-2^32 .. 2^32 - 1\<close>; otherwise it returns the four lowest bytes read as a
  signed 32-bit integer. So a value from \<open>2^31\<close> up to \<open>2^32 - 1\<close> comes back
  negative and one from \<open>-2^32\<close> up to \<open>-2^31 - 1\<close> comes back non-negative:
  \<open>toI32 2147483648 = -2147483648\<close> and \<open>toI32 (-4000000000) = 294967296\<close>.
\<close>

definition signed32 :: "int \<Rightarrow> int" where
  "signed32 x = (if x mod 2 ^ 32 < 2 ^ 31 then x mod 2 ^ 32 else x mod 2 ^ 32 - 2 ^ 32)"

definition toI32 :: "int \<Rightarrow> fault + int" where
  "toI32 x = (if - (2 ^ 32) \<le> x \<and> x < 2 ^ 32 then Inr (signed32 x) else Inl I32Overflow)"

text \<open>\<^verbatim>\<open>BigInt.toString\<close>: the decimal digits, with a minus sign below zero.\<close>

definition digit_char :: "nat \<Rightarrow> char" where
  "digit_char d = ''0123456789'' ! d"

fun nat_toString :: "nat \<Rightarrow> string" where
  "nat_toString n =
     (if n < 10 then [digit_char n] else nat_toString (n div 10) @ [digit_char (n mod 10)])"

declare nat_toString.simps [simp del]

definition bigint_toString :: "int \<Rightarrow> string" where
  "bigint_toString i =
     (if i < 0 then CHR ''-'' # nat_toString (nat (- i)) else nat_toString (nat i))"

text \<open>An array read \<^verbatim>\<open>xs[i]\<close> with a 32-bit index: out of range stops the handler.\<close>

definition array_get :: "'a list \<Rightarrow> int \<Rightarrow> fault + 'a" where
  "array_get xs i =
     (if 0 \<le> i \<and> i < int (length xs) then Inr (xs ! nat i) else Inl IndexOutOfRange)"

text \<open>\<^verbatim>\<open>Array.pop\<close>: the last element; there is none in an empty array.\<close>

definition array_pop :: "'a list \<Rightarrow> fault + 'a" where
  "array_pop xs = (case rev xs of [] \<Rightarrow> Inl EmptyArray | x # _ \<Rightarrow> Inr x)"

text \<open>
  \<^verbatim>\<open>Array.sort(comparator)\<close> on a copy of the array: the insertion sort of the
  runtime. Each element \<open>a\<close> moves left past every \<open>b\<close> with \<open>comparator(a, b) < 0\<close>
  and stops at the first \<open>b\<close> where that fails. The sorted prefix is held with its last
  element first, so that the walk from the right end is a walk down the list. A
  comparator that stops the handler stops the sort.
\<close>

fun sort_insert :: "('a \<Rightarrow> 'a \<Rightarrow> fault + int) \<Rightarrow> 'a \<Rightarrow> 'a list \<Rightarrow> fault + 'a list" where
  "sort_insert comparator a [] = Inr [a]"
| "sort_insert comparator a (b # bs) =
     (case comparator a b of
        Inl f \<Rightarrow> Inl f
      | Inr c \<Rightarrow>
          if c < 0 then
            (case sort_insert comparator a bs of
               Inl f \<Rightarrow> Inl f
             | Inr bs' \<Rightarrow> Inr (b # bs'))
          else Inr (a # b # bs))"

fun sort_from :: "('a \<Rightarrow> 'a \<Rightarrow> fault + int) \<Rightarrow> 'a list \<Rightarrow> 'a list \<Rightarrow> fault + 'a list" where
  "sort_from comparator placed [] = Inr (rev placed)"
| "sort_from comparator placed (a # rest) =
     (case sort_insert comparator a placed of
        Inl f \<Rightarrow> Inl f
      | Inr placed' \<Rightarrow> sort_from comparator placed' rest)"

definition array_sort :: "('a \<Rightarrow> 'a \<Rightarrow> fault + int) \<Rightarrow> 'a list \<Rightarrow> fault + 'a list" where
  "array_sort comparator xs = sort_from comparator [] xs"

subsection \<open>Entities and the store\<close>

record MarketPosition =
  position_id :: string
  market :: string
  user :: string
  outcomeIndex :: int
  quantityBought :: int
  quantitySold :: int
  netQuantity :: int
  valueBought :: int
  valueSold :: int
  netValue :: int

text \<open>The fields of a \<^verbatim>\<open>Transaction\<close> that the trade handler reads.\<close>

record Transaction =
  tx_user :: string
  tx_market :: string
  tx_outcomeIndex :: int
  tx_type :: string
  tx_outcomeTokensAmount :: int
  tx_tradeAmount :: int

record FixedProductMarketMaker =
  outcomeSlotCount :: int

text \<open>The payout fields of a \<^verbatim>\<open>Condition\<close> are \<^verbatim>\<open>null\<close> until it resolves.\<close>

record Condition =
  condition_id :: string
  payoutNumerators :: "int list option"
  payoutDenominator :: "int option"

datatype log_entry = LogError string "string list"

record world =
  positions :: "string \<rightharpoonup> MarketPosition"
  transactions :: "string \<rightharpoonup> Transaction"
  marketMakers :: "string \<rightharpoonup> FixedProductMarketMaker"
  conditions :: "string \<rightharpoonup> Condition"
  logs :: "log_entry list"

definition log_error :: "string \<Rightarrow> string list \<Rightarrow> world \<Rightarrow> world" where
  "log_error fmt args w = w\<lparr>logs := logs w @ [LogError fmt args]\<rparr>"

subsection \<open>Loading and saving a position\<close>

text \<open>
  The store keys every entity by its id: \<^verbatim>\<open>MarketPosition.load(id)\<close> gives the entity
  saved under \<open>id\<close>, which carries that id, or \<^verbatim>\<open>null\<close>; \<^verbatim>\<open>position.save()\<close>
  writes the entity under its own id.
\<close>

definition MarketPosition_load :: "world \<Rightarrow> string \<Rightarrow> MarketPosition option" where
  "MarketPosition_load w positionId =
     map_option (\<lambda>position. position\<lparr>position_id := positionId\<rparr>) (positions w positionId)"

definition MarketPosition_save :: "MarketPosition \<Rightarrow> world \<Rightarrow> world" where
  "MarketPosition_save position w =
     w\<lparr>positions := (positions w)(position_id position \<mapsto> position)\<rparr>"

definition positionId_of :: "string \<Rightarrow> string \<Rightarrow> int \<Rightarrow> string" where
  "positionId_of userAddress marketAddress idx =
     userAddress @ marketAddress @ bigint_toString idx"

definition getMarketPosition :: "world \<Rightarrow> string \<Rightarrow> string \<Rightarrow> int \<Rightarrow> MarketPosition" where
  "getMarketPosition w userAddress marketAddress idx =
     (let positionId = positionId_of userAddress marketAddress idx in
      case MarketPosition_load w positionId of
        None \<Rightarrow>
          \<lparr>position_id = positionId, market = marketAddress, user = userAddress,
           outcomeIndex = idx, quantityBought = 0, quantitySold = 0, netQuantity = 0,
           valueBought = 0, valueSold = 0, netValue = 0\<rparr>
      | Some position \<Rightarrow> position)"

definition updateNetPositionAndSave :: "MarketPosition \<Rightarrow> world \<Rightarrow> world" where
  "updateNetPositionAndSave position0 w =
     (let position1 = position0\<lparr>netQuantity := quantityBought position0 - quantitySold position0\<rparr>;
          position = position1\<lparr>netValue := valueBought position1 - valueSold position1\<rparr>;
          w1 = (if netQuantity position < 0
                then log_error ''Invalid position: user {} has negative netQuantity on outcome {} on market {}''
                       [user position, bigint_toString (outcomeIndex position), market position] w
                else w)
      in MarketPosition_save position w1)"

subsection \<open>The trade handler\<close>

text \<open>
  \<open>hashHex\<close> is \<^verbatim>\<open>event.transaction.hash.toHexString()\<close>, the key of the
  lookup, and \<open>hashText\<close> is \<^verbatim>\<open>event.transaction.hash.toString()\<close>, the text
  that is logged. After the log call the source goes on to read \<^verbatim>\<open>transaction.user\<close>
  whether or not the lookup found a record.
\<close>

definition updateMarketPositionFromTrade :: "string \<Rightarrow> string \<Rightarrow> world \<Rightarrow> outcome \<times> world" where
  "updateMarketPositionFromTrade hashHex hashText w =
     (let transaction = transactions w hashHex;
          w1 = (if transaction = None
                then log_error ''Could not find a transaction with hash: {}'' [hashText] w
                else w)
      in case transaction of
           None \<Rightarrow> (Faulted NullDereference, w1)
         | Some t \<Rightarrow>
             (let position = getMarketPosition w1 (tx_user t) (tx_market t) (tx_outcomeIndex t);
                  position' =
                    (if tx_type t = ''Buy''
                     then position\<lparr>quantityBought := quantityBought position + tx_outcomeTokensAmount t,
                                   valueBought := valueBought position + tx_tradeAmount t\<rparr>
                     else position\<lparr>quantitySold := quantitySold position + tx_outcomeTokensAmount t,
                                   valueSold := valueSold position + tx_tradeAmount t\<rparr>)
              in (Returned, updateNetPositionAndSave position' w1)))"

subsection \<open>Split and merge\<close>

text \<open>
  One turn of each loop is a function of its own; the loop runs it for the outcome
  indices in order and stops at the first turn that does not return.
\<close>

definition split_position :: "string \<Rightarrow> string \<Rightarrow> int \<Rightarrow> int \<Rightarrow> nat \<Rightarrow> world \<Rightarrow> outcome \<times> world" where
  "split_position userAddress marketMakerAddress amount totalSlots idx w =
     (let position = getMarketPosition w userAddress marketMakerAddress (int idx);
          position1 = position\<lparr>quantityBought := quantityBought position + amount\<rparr>
      in case bigint_div amount totalSlots of
           Inl f \<Rightarrow> (Faulted f, w)
         | Inr mergeValue \<Rightarrow>
             (Returned,
              updateNetPositionAndSave
                (position1\<lparr>valueBought := valueBought position1 + mergeValue\<rparr>) w))"

fun for_each :: "('i \<Rightarrow> world \<Rightarrow> outcome \<times> world) \<Rightarrow> 'i list \<Rightarrow> world \<Rightarrow> outcome \<times> world" where
  "for_each body [] w = (Returned, w)"
| "for_each body (i # rest) w =
     (case body i w of
        (Returned, w') \<Rightarrow> for_each body rest w'
      | (Faulted f, w') \<Rightarrow> (Faulted f, w'))"

definition updateMarketPositionsFromSplit :: "string \<Rightarrow> string \<Rightarrow> int \<Rightarrow> world \<Rightarrow> outcome \<times> world" where
  "updateMarketPositionsFromSplit marketMakerAddress userAddress amount w =
     (case marketMakers w marketMakerAddress of
        None \<Rightarrow> (Faulted NullDereference, w)
      | Some marketMaker \<Rightarrow>
          (let totalSlots = outcomeSlotCount marketMaker in
           for_each (split_position userAddress marketMakerAddress amount totalSlots)
             [0 ..< nat totalSlots] w))"

definition merge_position :: "string \<Rightarrow> string \<Rightarrow> int \<Rightarrow> int \<Rightarrow> nat \<Rightarrow> world \<Rightarrow> outcome \<times> world" where
  "merge_position userAddress marketMakerAddress amount totalSlots idx w =
     (let position = getMarketPosition w userAddress marketMakerAddress (int idx);
          position1 = position\<lparr>quantitySold := quantitySold position + amount\<rparr>
      in case bigint_div amount totalSlots of
           Inl f \<Rightarrow> (Faulted f, w)
         | Inr mergeValue \<Rightarrow>
             (Returned,
              updateNetPositionAndSave
                (position1\<lparr>valueSold := valueSold position1 + mergeValue\<rparr>) w))"

definition updateMarketPositionsFromMerge :: "string \<Rightarrow> string \<Rightarrow> int \<Rightarrow> world \<Rightarrow> outcome \<times> world" where
  "updateMarketPositionsFromMerge marketMakerAddress userAddress amount w =
     (case marketMakers w marketMakerAddress of
        None \<Rightarrow> (Faulted NullDereference, w)
      | Some marketMaker \<Rightarrow>
          (let totalSlots = outcomeSlotCount marketMaker in
           for_each (merge_position userAddress marketMakerAddress amount totalSlots)
             [0 ..< nat totalSlots] w))"

subsection \<open>Redemption\<close>

text \<open>
  One turn of the redemption loop, for the entry \<open>redeemedSlot\<close> of
  \<^verbatim>\<open>event.params.indexSets\<close>: the numerator is read at \<^verbatim>\<open>redeemedSlot.toI32()\<close>
  with no check against the length of the array.
\<close>

definition redeem_position :: "string \<Rightarrow> string \<Rightarrow> int list \<Rightarrow> int \<Rightarrow> int \<Rightarrow> world \<Rightarrow> outcome \<times> world" where
  "redeem_position userAddress marketMakerAddress numerators denominator redeemedSlot w =
     (let position = getMarketPosition w userAddress marketMakerAddress redeemedSlot in
      case toI32 redeemedSlot of
        Inl f \<Rightarrow> (Faulted f, w)
      | Inr slot \<Rightarrow>
          (case array_get numerators slot of
             Inl f \<Rightarrow> (Faulted f, w)
           | Inr numerator \<Rightarrow>
               (case bigint_div (netQuantity position * numerator) denominator of
                  Inl f \<Rightarrow> (Faulted f, w)
                | Inr redemptionValue \<Rightarrow>
                    (Returned,
                     updateNetPositionAndSave
                       (position\<lparr>quantitySold := quantitySold position + netQuantity position,
                                 valueSold := valueSold position + redemptionValue\<rparr>) w))))"

definition updateMarketPositionsFromRedemption ::
  "string \<Rightarrow> string \<Rightarrow> int list \<Rightarrow> string \<Rightarrow> world \<Rightarrow> outcome \<times> world" where
  "updateMarketPositionsFromRedemption marketMakerAddress userAddress indexSets conditionId w =
     (case conditions w conditionId of
        None \<Rightarrow> (Faulted NullDereference, w)
      | Some condition \<Rightarrow>
          (case (payoutNumerators condition, payoutDenominator condition) of
             (Some numerators, Some denominator) \<Rightarrow>
               for_each (redeem_position userAddress marketMakerAddress numerators denominator)
                 indexSets w
           | _ \<Rightarrow>
               (Returned,
                log_error ''Failed to update market positions: condition {} has not resolved''
                  [condition_id condition] w)))"

subsection \<open>Liquidity added and removed\<close>

text \<open>The comparator of the sort: \<^verbatim>\<open>(a, b) => a.minus(b).toI32()\<close>.\<close>

definition compareAmounts :: "int \<Rightarrow> int \<Rightarrow> fault + int" where
  "compareAmounts a b = toI32 (a - b)"

definition addedFunds_of :: "int list \<Rightarrow> fault + int" where
  "addedFunds_of amountsAdded =
     (case array_sort compareAmounts amountsAdded of
        Inl f \<Rightarrow> Inl f
      | Inr sorted_amounts \<Rightarrow> array_pop sorted_amounts)"

text \<open>The first loop: the sum of \<open>addedFunds - amountsAdded[i]\<close> over every index.\<close>

fun totalRefundedOutcomeTokens_from :: "int \<Rightarrow> int list \<Rightarrow> int \<Rightarrow> int" where
  "totalRefundedOutcomeTokens_from addedFunds [] subtotal = subtotal"
| "totalRefundedOutcomeTokens_from addedFunds (a # rest) subtotal =
     totalRefundedOutcomeTokens_from addedFunds rest (subtotal + (addedFunds - a))"

definition totalRefundedOutcomeTokens_of :: "int \<Rightarrow> int list \<Rightarrow> int" where
  "totalRefundedOutcomeTokens_of addedFunds amountsAdded =
     totalRefundedOutcomeTokens_from addedFunds amountsAdded 0"

definition refundValue_of :: "int \<Rightarrow> int \<Rightarrow> int \<Rightarrow> fault + int" where
  "refundValue_of totalRefundedValue totalRefundedOutcomeTokens refundedAmount =
     (if totalRefundedOutcomeTokens > 0
      then bigint_div (totalRefundedValue * refundedAmount) totalRefundedOutcomeTokens
      else Inr 0)"

definition refund_position ::
  "string \<Rightarrow> string \<Rightarrow> int list \<Rightarrow> int \<Rightarrow> int \<Rightarrow> int \<Rightarrow> nat \<Rightarrow> world \<Rightarrow> outcome \<times> world" where
  "refund_position funder fpmmAddress amountsAdded addedFunds totalRefundedValue
       totalRefundedOutcomeTokens idx w =
     (let position = getMarketPosition w funder fpmmAddress (int idx) in
      case array_get amountsAdded (int idx) of
        Inl f \<Rightarrow> (Faulted f, w)
      | Inr added \<Rightarrow>
          (let refundedAmount = addedFunds - added;
               position1 = position\<lparr>quantityBought := quantityBought position + refundedAmount\<rparr>
           in case refundValue_of totalRefundedValue totalRefundedOutcomeTokens refundedAmount of
                Inl f \<Rightarrow> (Faulted f, w)
              | Inr refundValue \<Rightarrow>
                  (Returned,
                   updateNetPositionAndSave
                     (position1\<lparr>valueBought := valueBought position1 + refundValue\<rparr>) w)))"

definition updateMarketPositionFromLiquidityAdded ::
  "string \<Rightarrow> string \<Rightarrow> int list \<Rightarrow> int \<Rightarrow> world \<Rightarrow> outcome \<times> world" where
  "updateMarketPositionFromLiquidityAdded fpmmAddress funder amountsAdded sharesMinted w =
     (case addedFunds_of amountsAdded of
        Inl f \<Rightarrow> (Faulted f, w)
      | Inr addedFunds \<Rightarrow>
          (let totalRefundedValue = addedFunds - sharesMinted;
               totalRefundedOutcomeTokens = totalRefundedOutcomeTokens_of addedFunds amountsAdded
           in for_each
                (refund_position funder fpmmAddress amountsAdded addedFunds totalRefundedValue
                   totalRefundedOutcomeTokens)
                [0 ..< length amountsAdded] w))"

definition withdraw_position ::
  "string \<Rightarrow> string \<Rightarrow> int list \<Rightarrow> int \<Rightarrow> nat \<Rightarrow> world \<Rightarrow> outcome \<times> world" where
  "withdraw_position funder fpmmAddress amountsRemoved pricePaidForTokens idx w =
     (let position = getMarketPosition w funder fpmmAddress (int idx) in
      case array_get amountsRemoved (int idx) of
        Inl f \<Rightarrow> (Faulted f, w)
      | Inr removed \<Rightarrow>
          (Returned,
           updateNetPositionAndSave
             (position\<lparr>quantityBought := quantityBought position + removed,
                       valueBought := valueBought position + pricePaidForTokens\<rparr>) w))"

definition updateMarketPositionFromLiquidityRemoved ::
  "string \<Rightarrow> string \<Rightarrow> int list \<Rightarrow> int \<Rightarrow> world \<Rightarrow> outcome \<times> world" where
  "updateMarketPositionFromLiquidityRemoved fpmmAddress funder amountsRemoved sharesBurnt w =
     (case bigint_div sharesBurnt (int (length amountsRemoved)) of
        Inl f \<Rightarrow> (Faulted f, w)
      | Inr pricePaidForTokens \<Rightarrow>
          for_each (withdraw_position funder fpmmAddress amountsRemoved pricePaidForTokens)
            [0 ..< length amountsRemoved] w)"

subsection \<open>Events in chain order\<close>

text \<open>
  The fields of each event that its handler reads, and the handler that the mapping
  calls for it. A run applies the handlers one after the other; the world after a
  handler that stopped is the world it left.
\<close>

datatype event =
    Trade string string
  | PositionSplit string string int
  | PositionsMerge string string int
  | PayoutRedemption string string "int list" string
  | FPMMFundingAdded string string "int list" int
  | FPMMFundingRemoved string string "int list" int

fun handle_event :: "event \<Rightarrow> world \<Rightarrow> outcome \<times> world" where
  "handle_event (Trade hashHex hashText) w = updateMarketPositionFromTrade hashHex hashText w"
| "handle_event (PositionSplit marketMakerAddress sender amount) w =
     updateMarketPositionsFromSplit marketMakerAddress sender amount w"
| "handle_event (PositionsMerge marketMakerAddress sender amount) w =
     updateMarketPositionsFromMerge marketMakerAddress sender amount w"
| "handle_event (PayoutRedemption marketMakerAddress sender indexSets conditionId) w =
     updateMarketPositionsFromRedemption marketMakerAddress sender indexSets conditionId w"
| "handle_event (FPMMFundingAdded fpmmAddress sender amountsAdded sharesMinted) w =
     updateMarketPositionFromLiquidityAdded fpmmAddress sender amountsAdded sharesMinted w"
| "handle_event (FPMMFundingRemoved fpmmAddress sender amountsRemoved sharesBurnt) w =
     updateMarketPositionFromLiquidityRemoved fpmmAddress sender amountsRemoved sharesBurnt w"

fun run_events :: "event list \<Rightarrow> world \<Rightarrow> world" where
  "run_events [] w = w"
| "run_events (e # es) w = run_events es (snd (handle_event e w))"

text \<open>The reconciled state of a position, and of every position of a store.\<close>

definition reconciled :: "MarketPosition \<Rightarrow> bool" where
  "reconciled p \<longleftrightarrow>
     netQuantity p = quantityBought p - quantitySold p \<and>
     netValue p = valueBought p - valueSold p"

definition store_reconciled :: "world \<Rightarrow> bool" where
  "store_reconciled w \<longleftrightarrow> (\<forall>k p. positions w k = Some p \<longrightarrow> reconciled p)"

subsection \<open>Concrete worlds and entities\<close>

definition empty_world :: world where
  "empty_world = \<lparr>positions = Map.empty, transactions = Map.empty, marketMakers = Map.empty,
     conditions = Map.empty, logs = []\<rparr>"

text \<open>A position that has sold more than it bought.\<close>

definition short_position :: MarketPosition where
  "short_position = \<lparr>position_id = ''um0'', market = ''m'', user = ''u'', outcomeIndex = 0,
     quantityBought = 1, quantitySold = 3, netQuantity = 0,
     valueBought = 0, valueSold = 0, netValue = 0\<rparr>"

text \<open>A world whose only condition has not resolved.\<close>

definition unresolved_world :: world where
  "unresolved_world = empty_world\<lparr>conditions :=
     [''c'' \<mapsto> \<lparr>condition_id = ''c'', payoutNumerators = None, payoutDenominator = None\<rparr>]\<rparr>"

text \<open>
  A world with one market maker of two outcomes and its condition, resolved with payout
  numerators 1 and 0 over the denominator 1.
\<close>

definition binary_world :: world where
  "binary_world = empty_world\<lparr>
     marketMakers := [''m'' \<mapsto> \<lparr>outcomeSlotCount = 2\<rparr>],
     conditions := [''c'' \<mapsto>
       \<lparr>condition_id = ''c'', payoutNumerators = Some [1, 0], payoutDenominator = Some 1\<rparr>]\<rparr>"

subsection \<open>Predicates of the statements\<close>

text \<open>Every difference of two amounts is the value of a signed 32-bit integer.\<close>

definition fits_i32 :: "int list \<Rightarrow> bool" where
  "fits_i32 xs \<longleftrightarrow> (\<forall>a\<in>set xs. \<forall>b\<in>set xs. a - b < 2 ^ 31)"

text \<open>
  What is stored under a key, read the way \<open>getMarketPosition\<close> reads it (nothing
  stored counts as zero): bought minus sold, for quantity and for value; and the six
  numbers of the position.
\<close>

definition gross_quantity :: "world \<Rightarrow> string \<Rightarrow> int" where
  "gross_quantity w k =
     (case positions w k of None \<Rightarrow> 0 | Some p \<Rightarrow> quantityBought p - quantitySold p)"

definition gross_value :: "world \<Rightarrow> string \<Rightarrow> int" where
  "gross_value w k =
     (case positions w k of None \<Rightarrow> 0 | Some p \<Rightarrow> valueBought p - valueSold p)"

definition six_fields :: "MarketPosition \<Rightarrow> int \<times> int \<times> int \<times> int \<times> int \<times> int" where
  "six_fields p =
     (quantityBought p, quantitySold p, netQuantity p, valueBought p, valueSold p, netValue p)"

definition stored_fields :: "world \<Rightarrow> string \<Rightarrow> int \<times> int \<times> int \<times> int \<times> int \<times> int" where
  "stored_fields w k = (case positions w k of None \<Rightarrow> (0, 0, 0, 0, 0, 0) | Some p \<Rightarrow> six_fields p)"

text \<open>
  A position is stored under the key and is reconciled; is stored with nothing left
  (net quantity zero, bought equal to sold); has a net quantity that is bought minus
  sold, where nothing stored counts as zero.
\<close>

definition saved_reconciled :: "world \<Rightarrow> string \<Rightarrow> bool" where
  "saved_reconciled w k = (case positions w k of None \<Rightarrow> False | Some p \<Rightarrow> reconciled p)"

definition saved_zero :: "world \<Rightarrow> string \<Rightarrow> bool" where
  "saved_zero w k =
     (case positions w k of
        None \<Rightarrow> False
      | Some p \<Rightarrow> netQuantity p = 0 \<and> quantityBought p = quantitySold p)"

definition quantity_reconciled :: "world \<Rightarrow> string \<Rightarrow> bool" where
  "quantity_reconciled w k =
     (case positions w k of
        None \<Rightarrow> True
      | Some p \<Rightarrow> netQuantity p = quantityBought p - quantitySold p)"

section \<open>Properties\<close>

subsection \<open>What a save does to the world\<close>

lemma positions_save:
  "positions (updateNetPositionAndSave p w) =
     (positions w)(position_id p \<mapsto>
        p\<lparr>netQuantity := quantityBought p - quantitySold p,
          netValue := valueBought p - valueSold p\<rparr>)"
  by (simp add: updateNetPositionAndSave_def MarketPosition_save_def Let_def log_error_def)

lemma logs_save:
  "logs (updateNetPositionAndSave p w) =
     (if quantityBought p - quantitySold p < 0
      then logs w @ [LogError ''Invalid position: user {} has negative netQuantity on outcome {} on market {}''
                       [user p, bigint_toString (outcomeIndex p), market p]]
      else logs w)"
  by (simp add: updateNetPositionAndSave_def MarketPosition_save_def Let_def log_error_def)

lemma others_save:
  "transactions (updateNetPositionAndSave p w) = transactions w"
  "marketMakers (updateNetPositionAndSave p w) = marketMakers w"
  "conditions (updateNetPositionAndSave p w) = conditions w"
  by (simp_all add: updateNetPositionAndSave_def MarketPosition_save_def Let_def log_error_def)

lemma toString_small:
  "bigint_toString 0 = ''0''" "bigint_toString 1 = ''1''" "bigint_toString 2 = ''2''"
  by (simp_all add: bigint_toString_def nat_toString.simps digit_char_def)

subsection \<open>The 32-bit conversion\<close>

lemma toI32_examples:
  "toI32 2147483648 = Inr (- 2147483648)" "toI32 (- 4000000000) = Inr 294967296"
  "toI32 4294967296 = Inl I32Overflow" "toI32 (- 4294967296) = Inr 0"
  by (simp_all add: toI32_def signed32_def)

lemma signed32_small: "- (2 ^ 31) \<le> x \<Longrightarrow> x < 2 ^ 31 \<Longrightarrow> signed32 x = x"
proof (cases "0 \<le> x")
  case True
  assume "x < 2 ^ 31"
  with True have "x mod 2 ^ 32 = x" by (simp add: mod_pos_pos_trivial)
  then show ?thesis using \<open>x < 2 ^ 31\<close> by (simp add: signed32_def)
next
  case False
  assume lo: "- (2 ^ 31) \<le> x"
  have "(x + 2 ^ 32) mod 2 ^ 32 = x + 2 ^ 32"
    using False lo by (intro mod_pos_pos_trivial) simp_all
  then have "x mod 2 ^ 32 = x + 2 ^ 32" by simp
  then show ?thesis using lo False by (simp add: signed32_def)
qed

lemma toI32_small: "- (2 ^ 31) \<le> x \<Longrightarrow> x < 2 ^ 31 \<Longrightarrow> toI32 x = Inr x"
  by (simp add: toI32_def signed32_small)

lemma signed32_high: "2 ^ 31 \<le> x \<Longrightarrow> x < 2 ^ 32 \<Longrightarrow> signed32 x < 0"
proof -
  assume a: "2 ^ 31 \<le> x" "x < 2 ^ 32"
  then have "x mod 2 ^ 32 = x" by (simp add: mod_pos_pos_trivial)
  with a show ?thesis by (simp add: signed32_def)
qed

text \<open>
  For a non-negative value and an array shorter than \<open>2^31\<close>, the converted value is
  an index of the array exactly when the value itself is.
\<close>

lemma toI32_index_nonneg:
  assumes "0 \<le> s" and "n < 2 ^ 31"
  shows "(\<exists>i. toI32 s = Inr i \<and> 0 \<le> i \<and> i < n) \<longleftrightarrow> s < (n :: int)"
proof
  assume "\<exists>i. toI32 s = Inr i \<and> 0 \<le> i \<and> i < n"
  then obtain i where i: "toI32 s = Inr i" "0 \<le> i" "i < n" by blast
  show "s < n"
  proof (cases "s < 2 ^ 31")
    case True
    with assms(1) i show ?thesis by (simp add: toI32_small)
  next
    case False
    with i(1) have "s < 2 ^ 32" "i = signed32 s" by (auto simp: toI32_def split: if_splits)
    with False signed32_high [of s] i(2) show ?thesis by simp
  qed
next
  assume "s < n"
  with assms show "\<exists>i. toI32 s = Inr i \<and> 0 \<le> i \<and> i < n" by (simp add: toI32_small)
qed

subsection \<open>The reconciler on a negative balance\<close>

text \<open>
  C8. When the recomputed \<open>netQuantity\<close> (bought minus sold) is negative, the reconciler
  logs one error and still saves the position, under its id, with that negative
  \<open>netQuantity\<close> and the recomputed \<open>netValue\<close>: the value is not clamped, the save
  is not skipped, and the function has no way to stop (it returns a world).
\<close>

theorem reconciler_saves_negative:
  assumes "quantityBought p - quantitySold p < 0"
  shows "positions (updateNetPositionAndSave p w) (position_id p) =
           Some (p\<lparr>netQuantity := quantityBought p - quantitySold p,
                   netValue := valueBought p - valueSold p\<rparr>)
         \<and> logs (updateNetPositionAndSave p w) =
           logs w @ [LogError ''Invalid position: user {} has negative netQuantity on outcome {} on market {}''
                       [user p, bigint_toString (outcomeIndex p), market p]]"
  using assms by (simp add: positions_save logs_save)

theorem reconciler_saves_negative_witness:
  "quantityBought short_position - quantitySold short_position < 0
   \<and> map_option netQuantity
       (positions (updateNetPositionAndSave short_position empty_world) ''um0'') = Some (- 2)
   \<and> logs (updateNetPositionAndSave short_position empty_world) =
       [LogError ''Invalid position: user {} has negative netQuantity on outcome {} on market {}''
          [''u'', ''0'', ''m'']]"
  using reconciler_saves_negative [of short_position empty_world]
  by (simp add: short_position_def empty_world_def toString_small)

subsection \<open>Redemption against an unresolved condition\<close>

text \<open>
  C6. When the condition of a redemption event is stored and one of its payout fields is
  absent, the handler returns the world it was given with exactly one more log entry:
  no position is changed or saved.
\<close>

theorem redemption_unresolved:
  assumes "conditions w conditionId = Some c"
      and "payoutNumerators c = None \<or> payoutDenominator c = None"
  shows "updateMarketPositionsFromRedemption m u indexSets conditionId w =
           (Returned, w\<lparr>logs := logs w @
              [LogError ''Failed to update market positions: condition {} has not resolved''
                 [condition_id c]]\<rparr>)"
  using assms
  by (auto simp: updateMarketPositionsFromRedemption_def log_error_def split: option.splits)

theorem redemption_unresolved_witness:
  "conditions unresolved_world ''c'' =
     Some \<lparr>condition_id = ''c'', payoutNumerators = None, payoutDenominator = None\<rparr>
   \<and> updateMarketPositionsFromRedemption ''m'' ''u'' [0, 1] ''c'' unresolved_world =
       (Returned, unresolved_world\<lparr>logs :=
          [LogError ''Failed to update market positions: condition {} has not resolved'' [''c'']]\<rparr>)"
  using redemption_unresolved [of unresolved_world "''c''"
      "\<lparr>condition_id = ''c'', payoutNumerators = None, payoutDenominator = None\<rparr>"
      "''m''" "''u''" "[0, 1]"]
  by (simp add: unresolved_world_def empty_world_def)

subsection \<open>Liquidity added: the worked example\<close>

lemma addedFunds_example: "addedFunds_of [100, 80, 60] = Inr 100"
  by (simp add: addedFunds_of_def array_sort_def compareAmounts_def toI32_small array_pop_def)

lemma totalRefunded_example: "totalRefundedOutcomeTokens_of 100 [100, 80, 60] = 60"
  by (simp add: totalRefundedOutcomeTokens_of_def)

lemma refundValue_example: "refundValue_of (100 - 60) 60 40 = Inr 26"
  by (simp add: refundValue_of_def bigint_div_def trunc_quot_def)

lemma upt_three: "[0..<3] = [0, Suc 0, 2]"
  by (simp add: upt_rec)

text \<open>
  C7. With \<open>amountsAdded = [100, 80, 60]\<close> and \<open>sharesMinted = 60\<close> on a store with no
  positions: \<open>addedFunds\<close> is 100, the refunded outcome tokens sum to 60, the refunded
  value is \<open>100 - 60 = 40\<close>, the three positions end with \<open>quantityBought\<close> 0, 20 and 40
  (the refunded amounts), and the position of outcome 2 ends with \<open>valueBought\<close>
  \<open>40 * 40 / 60 = 26\<close>.
\<close>

theorem liquidity_added_example:
  "addedFunds_of [100, 80, 60] = Inr 100
   \<and> totalRefundedOutcomeTokens_of 100 [100, 80, 60] = 60
   \<and> refundValue_of (100 - 60) 60 40 = Inr 26
   \<and> fst (updateMarketPositionFromLiquidityAdded fpmm funder [100, 80, 60] 60 empty_world) = Returned
   \<and> map (\<lambda>i. quantityBought (getMarketPosition
            (snd (updateMarketPositionFromLiquidityAdded fpmm funder [100, 80, 60] 60 empty_world))
            funder fpmm i)) [0, 1, 2] = [0, 20, 40]
   \<and> valueBought (getMarketPosition
            (snd (updateMarketPositionFromLiquidityAdded fpmm funder [100, 80, 60] 60 empty_world))
            funder fpmm 2) = 26"
  apply (simp add: addedFunds_example totalRefunded_example refundValue_example)
  apply (simp add: updateMarketPositionFromLiquidityAdded_def addedFunds_example
      totalRefunded_example upt_three refund_position_def array_get_def refundValue_of_def
      bigint_div_def trunc_quot_def getMarketPosition_def positionId_of_def
      MarketPosition_load_def positions_save empty_world_def
      toString_small Let_def)
  done

subsection \<open>The trade handler without its transaction\<close>

text \<open>
  C1. For every trade event whose transaction hash has no stored \<^verbatim>\<open>Transaction\<close>, the
  handler leaves every position as it was (nothing is changed or saved) and logs exactly
  one lookup failure. It does so by stopping: nothing returns after the log call, and the
  next statement reads \<^verbatim>\<open>transaction.user\<close> on \<^verbatim>\<open>null\<close>.
\<close>

theorem trade_without_transaction:
  assumes "transactions w hashHex = None"
  shows "positions (snd (updateMarketPositionFromTrade hashHex hashText w)) = positions w
     \<and> logs (snd (updateMarketPositionFromTrade hashHex hashText w)) =
         logs w @ [LogError ''Could not find a transaction with hash: {}'' [hashText]]
     \<and> updateMarketPositionFromTrade hashHex hashText w =
         (Faulted NullDereference,
          w\<lparr>logs := logs w @ [LogError ''Could not find a transaction with hash: {}'' [hashText]]\<rparr>)"
  using assms by (simp add: updateMarketPositionFromTrade_def log_error_def)

theorem trade_without_transaction_witness:
  "transactions binary_world ''0xab'' = None
   \<and> positions (snd (updateMarketPositionFromTrade ''0xab'' ''0xab'' binary_world)) =
       positions binary_world
   \<and> logs (snd (updateMarketPositionFromTrade ''0xab'' ''0xab'' binary_world)) =
       [LogError ''Could not find a transaction with hash: {}'' [''0xab'']]"
  using trade_without_transaction [of binary_world "''0xab''" "''0xab''"]
  by (simp add: binary_world_def empty_world_def)

subsection \<open>The sort behind \<open>addedFunds\<close>\<close>

lemma compareAmounts_fits:
  "a - b < 2 ^ 31 \<Longrightarrow> b - a < 2 ^ 31 \<Longrightarrow> compareAmounts a b = Inr (a - b)"
  by (simp add: compareAmounts_def toI32_small)

lemma sort_insert_fits:
  assumes "\<forall>b\<in>set bs. a - b < 2 ^ 31 \<and> b - a < 2 ^ 31"
      and "sorted_wrt (\<lambda>x y. y \<le> x) bs"
  shows "\<exists>bs'. sort_insert compareAmounts a bs = Inr bs' \<and> set bs' = insert a (set bs)
           \<and> sorted_wrt (\<lambda>x y. y \<le> x) bs'"
  using assms
proof (induction bs)
  case Nil
  then show ?case by simp
next
  case (Cons b bs)
  then have cmp: "compareAmounts a b = Inr (a - b)"
    by (simp add: compareAmounts_fits)
  show ?case
  proof (cases "a - b < 0")
    case True
    from Cons obtain bs' where bs': "sort_insert compareAmounts a bs = Inr bs'"
      "set bs' = insert a (set bs)" "sorted_wrt (\<lambda>x y. y \<le> x) bs'"
      by auto
    with True cmp Cons.prems show ?thesis by auto
  next
    case False
    with cmp Cons.prems show ?thesis by auto
  qed
qed

lemma sort_from_fits:
  assumes "fits_i32 (placed @ xs)"
      and "sorted_wrt (\<lambda>x y. y \<le> x) placed"
  shows "\<exists>ys. sort_from compareAmounts placed xs = Inr ys \<and> set ys = set placed \<union> set xs
           \<and> sorted ys"
  using assms
proof (induction xs arbitrary: placed)
  case Nil
  then show ?case by (simp add: sorted_wrt_rev)
next
  case (Cons a xs)
  have "\<forall>b\<in>set placed. a - b < 2 ^ 31 \<and> b - a < 2 ^ 31"
    using Cons.prems(1) by (simp add: fits_i32_def)
  with Cons.prems(2) obtain placed' where p:
    "sort_insert compareAmounts a placed = Inr placed'"
    "set placed' = insert a (set placed)" "sorted_wrt (\<lambda>x y. y \<le> x) placed'"
    using sort_insert_fits by blast
  have "fits_i32 (placed' @ xs)"
    using Cons.prems(1) p(2) by (simp add: fits_i32_def)
  with Cons.IH p(3) obtain ys where
    "sort_from compareAmounts placed' xs = Inr ys" "set ys = set placed' \<union> set xs" "sorted ys"
    by blast
  with p show ?case by auto
qed

lemma array_pop_last: "xs \<noteq> [] \<Longrightarrow> array_pop xs = Inr (last xs)"
  by (cases xs rule: rev_cases) (simp_all add: array_pop_def)

lemma sorted_below_last: "sorted ys \<Longrightarrow> y \<in> set ys \<Longrightarrow> y \<le> last (ys :: int list)"
  by (induction ys) auto

text \<open>
  Where every difference of two amounts fits 32 bits, the sort returns and the popped
  element is the largest amount.
\<close>

lemma addedFunds_of_max:
  assumes "amountsAdded \<noteq> []" and "fits_i32 amountsAdded"
  shows "addedFunds_of amountsAdded = Inr (Max (set amountsAdded))"
proof -
  from assms(2) obtain ys where ys: "array_sort compareAmounts amountsAdded = Inr ys"
    "set ys = set amountsAdded" "sorted ys"
    using sort_from_fits [of "[]" amountsAdded] by (auto simp: array_sort_def)
  with assms(1) have ne: "ys \<noteq> []" by auto
  have "last ys = Max (set ys)"
  proof (rule Max_eqI [symmetric])
    show "finite (set ys)" by simp
    show "\<And>y. y \<in> set ys \<Longrightarrow> y \<le> last ys" using ys(3) by (rule sorted_below_last)
    show "last ys \<in> set ys" using ne by simp
  qed
  with ys ne show ?thesis by (simp add: addedFunds_of_def array_pop_last)
qed

lemma addedFunds_of_empty: "addedFunds_of [] = Inl EmptyArray"
  by (simp add: addedFunds_of_def array_sort_def array_pop_def)

text \<open>
  C5 (the code at amounts that are more than \<open>2^31\<close> apart). With
  \<open>amountsAdded = [5000000000, 1000000000]\<close> the comparator is asked for
  \<open>(1000000000 - 5000000000).toI32()\<close>, which comes back as 294967296, not negative:
  the sort leaves the array as it is and \<open>addedFunds\<close> is the last element, 1000000000,
  where the largest amount is 5000000000. The handler returns, having saved the position
  of outcome 0 with \<open>quantityBought = 1000000000 - 5000000000\<close> and logged its negative
  \<open>netQuantity\<close>.
\<close>

theorem addedFunds_not_the_maximum:
  "Max (set [5000000000, 1000000000 :: int]) = 5000000000
   \<and> compareAmounts 1000000000 5000000000 = Inr 294967296
   \<and> array_sort compareAmounts [5000000000, 1000000000] = Inr [5000000000, 1000000000]
   \<and> addedFunds_of [5000000000, 1000000000] = Inr 1000000000
   \<and> fst (updateMarketPositionFromLiquidityAdded ''m'' ''u'' [5000000000, 1000000000] 1000000000
       empty_world) = Returned
   \<and> map_option six_fields (positions
       (snd (updateMarketPositionFromLiquidityAdded ''m'' ''u'' [5000000000, 1000000000] 1000000000
          empty_world)) ''um0'') = Some (- 4000000000, 0, - 4000000000, 0, 0, 0)
   \<and> length (logs
       (snd (updateMarketPositionFromLiquidityAdded ''m'' ''u'' [5000000000, 1000000000] 1000000000
          empty_world))) = 1"
  by (simp add: updateMarketPositionFromLiquidityAdded_def addedFunds_of_def array_sort_def
      compareAmounts_def toI32_examples array_pop_def totalRefundedOutcomeTokens_of_def
      refund_position_def refundValue_of_def array_get_def upt_rec getMarketPosition_def
      MarketPosition_load_def positionId_of_def positions_save logs_save empty_world_def
      toString_small six_fields_def Let_def)

subsection \<open>The read of the payout numerators\<close>

lemma redeem_position_returns:
  "fst (redeem_position u m numerators denominator slot w) = Returned \<longleftrightarrow>
     (\<exists>i. toI32 slot = Inr i \<and> 0 \<le> i \<and> i < int (length numerators)) \<and> denominator \<noteq> 0"
  by (auto simp: redeem_position_def array_get_def bigint_div_def Let_def split: sum.splits)

lemma for_each_returns:
  assumes "\<And>i w. fst (body i w) = Returned \<longleftrightarrow> P i"
  shows "fst (for_each body xs w) = Returned \<longleftrightarrow> (\<forall>i\<in>set xs. P i)"
proof (induction xs arbitrary: w)
  case Nil
  then show ?case by simp
next
  case (Cons i xs)
  obtain r w' where b: "body i w = (r, w')" by (cases "body i w")
  with assms [of i w] have "r = Returned \<longleftrightarrow> P i" by simp
  with b Cons.IH [of w'] show ?case
    by (cases r) auto
qed

text \<open>
  C10. The numerator is read at \<^verbatim>\<open>redeemedSlot.toI32()\<close> with no check. For a resolved
  condition with a nonzero denominator the handler returns exactly when, for every
  redeemed slot, the conversion returns an index of \<open>payoutNumerators\<close>. The entries
  of \<^verbatim>\<open>indexSets\<close> are unsigned numbers of the event: when none is negative (and the
  array is shorter than \<open>2^31\<close>), the handler returns exactly when every redeemed slot
  is less than the length of \<open>payoutNumerators\<close>. And there is an event where one is
  not: on a two-outcome condition, the index sets 1 and 2 make the handler read
  \<open>payoutNumerators[2]\<close>, out of range.
\<close>

theorem redemption_read_in_bounds:
  assumes "conditions w conditionId = Some c"
      and "payoutNumerators c = Some numerators"
      and "payoutDenominator c = Some denominator"
      and "denominator \<noteq> 0"
      and "length numerators < 2 ^ 31"
  shows "(fst (updateMarketPositionsFromRedemption m u indexSets conditionId w) = Returned
            \<longleftrightarrow> (\<forall>s\<in>set indexSets.
                   \<exists>i. toI32 s = Inr i \<and> 0 \<le> i \<and> i < int (length numerators)))
         \<and> ((\<forall>s\<in>set indexSets. 0 \<le> s) \<longrightarrow>
              (fst (updateMarketPositionsFromRedemption m u indexSets conditionId w) = Returned
                 \<longleftrightarrow> (\<forall>s\<in>set indexSets. 0 \<le> s \<and> s < int (length numerators))))
         \<and> fst (updateMarketPositionsFromRedemption ''m'' ''u'' [1, 2] ''c'' binary_world)
             = Faulted IndexOutOfRange"
proof -
  have turn: "\<And>s w. fst (redeem_position u m numerators denominator s w) = Returned
                \<longleftrightarrow> (\<exists>i. toI32 s = Inr i \<and> 0 \<le> i \<and> i < int (length numerators))"
    using assms(4) by (simp add: redeem_position_returns)
  have loop: "fst (for_each (redeem_position u m numerators denominator) indexSets w) = Returned
          \<longleftrightarrow> (\<forall>s\<in>set indexSets.
                 \<exists>i. toI32 s = Inr i \<and> 0 \<le> i \<and> i < int (length numerators))"
    by (rule for_each_returns) (rule turn)
  have handler: "fst (updateMarketPositionsFromRedemption m u indexSets conditionId w) = Returned
          \<longleftrightarrow> (\<forall>s\<in>set indexSets.
                 \<exists>i. toI32 s = Inr i \<and> 0 \<le> i \<and> i < int (length numerators))"
    using loop assms(1-3) by (simp add: updateMarketPositionsFromRedemption_def)
  have n: "int (length numerators) < 2 ^ 31"
    using assms(5) by simp
  have nonneg: "(\<forall>s\<in>set indexSets. 0 \<le> s) \<longrightarrow>
      ((\<forall>s\<in>set indexSets. \<exists>i. toI32 s = Inr i \<and> 0 \<le> i \<and> i < int (length numerators))
        \<longleftrightarrow> (\<forall>s\<in>set indexSets. 0 \<le> s \<and> s < int (length numerators)))"
    using toI32_index_nonneg [OF _ n] by blast
  have example: "fst (updateMarketPositionsFromRedemption ''m'' ''u'' [1, 2] ''c'' binary_world)
             = Faulted IndexOutOfRange"
    by (simp add: updateMarketPositionsFromRedemption_def binary_world_def empty_world_def
        redeem_position_def toI32_small array_get_def bigint_div_def Let_def)
  from handler nonneg example show ?thesis by blast
qed

theorem redemption_read_in_bounds_witness:
  "fst (updateMarketPositionsFromRedemption ''m'' ''u'' [0, 1] ''c'' binary_world) = Returned
   \<and> fst (updateMarketPositionsFromRedemption ''m'' ''u'' [1, 2] ''c'' binary_world)
             = Faulted IndexOutOfRange"
  using redemption_read_in_bounds [of binary_world "''c''"
      "\<lparr>condition_id = ''c'', payoutNumerators = Some [1, 0], payoutDenominator = Some 1\<rparr>"
      "[1, 0]" 1 "''m''" "''u''" "[0, 1]"]
  by (simp add: binary_world_def empty_world_def)

subsection \<open>Every stored position stays reconciled\<close>

lemma store_reconciled_save:
  "store_reconciled w \<Longrightarrow> store_reconciled (updateNetPositionAndSave p w)"
  by (simp add: store_reconciled_def positions_save reconciled_def)

lemma store_reconciled_log: "store_reconciled (log_error fmt args w) = store_reconciled w"
  by (simp add: store_reconciled_def log_error_def)

lemma for_each_preserves:
  assumes "\<And>i w. Q w \<Longrightarrow> Q (snd (body i w))" and "Q w"
  shows "Q (snd (for_each body xs w))"
  using assms(2)
proof (induction xs arbitrary: w)
  case Nil
  then show ?case by simp
next
  case (Cons i xs)
  obtain r w' where b: "body i w = (r, w')" by (cases "body i w")
  from assms(1) [OF Cons.prems, of i] b have "Q w'" by simp
  with b Cons.IH [of w'] show ?case by (cases r) simp_all
qed

lemma split_position_reconciled:
  "store_reconciled w \<Longrightarrow> store_reconciled (snd (split_position u m a n i w))"
  by (simp add: split_position_def Let_def store_reconciled_save split: sum.splits)

lemma merge_position_reconciled:
  "store_reconciled w \<Longrightarrow> store_reconciled (snd (merge_position u m a n i w))"
  by (simp add: merge_position_def Let_def store_reconciled_save split: sum.splits)

lemma redeem_position_reconciled:
  "store_reconciled w \<Longrightarrow> store_reconciled (snd (redeem_position u m ns d s w))"
  by (simp add: redeem_position_def Let_def store_reconciled_save split: sum.splits)

lemma refund_position_reconciled:
  "store_reconciled w \<Longrightarrow> store_reconciled (snd (refund_position u m as af tv tt i w))"
  by (simp add: refund_position_def Let_def store_reconciled_save split: sum.splits)

lemma withdraw_position_reconciled:
  "store_reconciled w \<Longrightarrow> store_reconciled (snd (withdraw_position u m as pr i w))"
  by (simp add: withdraw_position_def Let_def store_reconciled_save split: sum.splits)

lemma trade_reconciled:
  "store_reconciled w \<Longrightarrow> store_reconciled (snd (updateMarketPositionFromTrade h t w))"
  by (simp add: updateMarketPositionFromTrade_def Let_def store_reconciled_save
      store_reconciled_log split: option.splits)

lemma split_reconciled:
  "store_reconciled w \<Longrightarrow> store_reconciled (snd (updateMarketPositionsFromSplit m u a w))"
  by (simp add: updateMarketPositionsFromSplit_def Let_def for_each_preserves
      split_position_reconciled split: option.splits)

lemma merge_reconciled:
  "store_reconciled w \<Longrightarrow> store_reconciled (snd (updateMarketPositionsFromMerge m u a w))"
  by (simp add: updateMarketPositionsFromMerge_def Let_def for_each_preserves
      merge_position_reconciled split: option.splits)

lemma redemption_reconciled:
  "store_reconciled w \<Longrightarrow> store_reconciled (snd (updateMarketPositionsFromRedemption m u xs c w))"
  by (simp add: updateMarketPositionsFromRedemption_def for_each_preserves
      redeem_position_reconciled store_reconciled_log split: option.splits)

lemma liquidity_added_reconciled:
  "store_reconciled w \<Longrightarrow> store_reconciled (snd (updateMarketPositionFromLiquidityAdded m u as sh w))"
  by (simp add: updateMarketPositionFromLiquidityAdded_def Let_def for_each_preserves
      refund_position_reconciled split: sum.splits)

lemma liquidity_removed_reconciled:
  "store_reconciled w \<Longrightarrow> store_reconciled (snd (updateMarketPositionFromLiquidityRemoved m u as sh w))"
  by (simp add: updateMarketPositionFromLiquidityRemoved_def for_each_preserves
      withdraw_position_reconciled split: sum.splits)

lemma handle_event_reconciled:
  "store_reconciled w \<Longrightarrow> store_reconciled (snd (handle_event e w))"
  by (cases e) (simp_all add: trade_reconciled split_reconciled merge_reconciled
      redemption_reconciled liquidity_added_reconciled liquidity_removed_reconciled)

lemma run_events_reconciled:
  "store_reconciled w \<Longrightarrow> store_reconciled (run_events es w)"
  by (induction es arbitrary: w) (simp_all add: handle_event_reconciled)

lemma store_reconciled_empty: "store_reconciled empty_world"
  by (simp add: store_reconciled_def empty_world_def)

text \<open>
  C3. From a store in which every position is reconciled (the empty store is one), after
  any sequence of events, each handled by its reducer (trade, split, merge, redemption,
  liquidity added, liquidity removed) and whether or not a handler stopped on the way,
  every stored position has \<open>netQuantity = quantityBought - quantitySold\<close> and
  \<open>netValue = valueBought - valueSold\<close>: each save goes through the reconciler.
\<close>

theorem reducers_keep_positions_reconciled:
  assumes "store_reconciled w" and "positions (run_events es w) k = Some p"
  shows "netQuantity p = quantityBought p - quantitySold p
         \<and> netValue p = valueBought p - valueSold p"
  using run_events_reconciled [OF assms(1), of es] assms(2)
  by (simp add: store_reconciled_def reconciled_def)

lemma run_events_example: "positions (run_events [PositionSplit ''m'' ''u'' 10, Trade ''0x'' ''0x'', PayoutRedemption ''m'' ''u'' [0] ''c''] binary_world) ''um0''
  = Some \<lparr>position_id = ''um0'', market = ''m'', user = ''u'', outcomeIndex = 0,
      quantityBought = 10, quantitySold = 10, netQuantity = 0, valueBought = 5,
      valueSold = 10, netValue = - 5\<rparr>"
  by (simp add: updateMarketPositionsFromSplit_def binary_world_def empty_world_def upt_rec
     split_position_def bigint_div_def trunc_quot_def getMarketPosition_def positionId_of_def
     MarketPosition_load_def positions_save others_save toString_small Let_def
     updateMarketPositionFromTrade_def log_error_def updateMarketPositionsFromRedemption_def
     redeem_position_def toI32_small array_get_def)

theorem reducers_keep_positions_reconciled_witness:
  "store_reconciled binary_world
   \<and> map_option six_fields (positions (run_events
         [PositionSplit ''m'' ''u'' 10, Trade ''0x'' ''0x'', PayoutRedemption ''m'' ''u'' [0] ''c'']
         binary_world) ''um0'') = Some (10, 10, 10 - 10, 5, 10, 5 - 10)"
proof -
  have start: "store_reconciled binary_world"
    by (simp add: store_reconciled_def binary_world_def empty_world_def)
  from reducers_keep_positions_reconciled [OF start run_events_example] start
  show ?thesis
    by (simp only: run_events_example) (simp add: six_fields_def)
qed

subsection \<open>What getMarketPosition reads\<close>

lemma getMarketPosition_eq:
  "getMarketPosition w u m i =
     (case positions w (positionId_of u m i) of
        None \<Rightarrow>
          \<lparr>position_id = positionId_of u m i, market = m, user = u,
           outcomeIndex = i, quantityBought = 0, quantitySold = 0, netQuantity = 0,
           valueBought = 0, valueSold = 0, netValue = 0\<rparr>
      | Some p \<Rightarrow> p\<lparr>position_id := positionId_of u m i\<rparr>)"
  by (cases "positions w (positionId_of u m i)")
    (simp_all add: getMarketPosition_def MarketPosition_load_def Let_def)

lemma get_position_id: "position_id (getMarketPosition w u m i) = positionId_of u m i"
  by (simp add: getMarketPosition_eq split: option.splits)

lemma get_six_fields:
  "six_fields (getMarketPosition w u m i) = stored_fields w (positionId_of u m i)"
  by (simp add: getMarketPosition_eq six_fields_def stored_fields_def
      split: option.splits)

lemma get_gross_quantity:
  "quantityBought (getMarketPosition w u m i) - quantitySold (getMarketPosition w u m i) =
     gross_quantity w (positionId_of u m i)"
  by (simp add: getMarketPosition_eq gross_quantity_def
      split: option.splits)

lemma get_gross_value:
  "valueBought (getMarketPosition w u m i) - valueSold (getMarketPosition w u m i) =
     gross_value w (positionId_of u m i)"
  by (simp add: getMarketPosition_eq gross_value_def
      split: option.splits)

lemma get_saved_reconciled:
  "saved_reconciled w (positionId_of u m i) \<Longrightarrow>
     netQuantity (getMarketPosition w u m i) = gross_quantity w (positionId_of u m i)
     \<and> netValue (getMarketPosition w u m i) = gross_value w (positionId_of u m i)"
  by (simp add: getMarketPosition_eq gross_quantity_def
      gross_value_def saved_reconciled_def reconciled_def split: option.splits)

lemma get_reconciled:
  "reconciled (getMarketPosition w u m i) \<Longrightarrow>
     netQuantity (getMarketPosition w u m i) = gross_quantity w (positionId_of u m i)
     \<and> netValue (getMarketPosition w u m i) = gross_value w (positionId_of u m i)"
  by (simp add: reconciled_def get_gross_quantity get_gross_value)

text \<open>In a reconciled store every position that is read is reconciled.\<close>

lemma store_reconciled_get:
  "store_reconciled w \<Longrightarrow> reconciled (getMarketPosition w u m i)"
  by (auto simp: getMarketPosition_eq store_reconciled_def reconciled_def split: option.splits)

lemma store_quantity_reconciled:
  "store_reconciled w \<Longrightarrow> quantity_reconciled w k"
  by (auto simp: store_reconciled_def reconciled_def quantity_reconciled_def
      split: option.splits)

subsection \<open>One turn of split and of merge\<close>

lemma split_position_returns: "n \<noteq> 0 \<Longrightarrow> fst (split_position u m a n i w) = Returned"
  by (simp add: split_position_def bigint_div_def Let_def)

lemma merge_position_returns: "n \<noteq> 0 \<Longrightarrow> fst (merge_position u m a n i w) = Returned"
  by (simp add: merge_position_def bigint_div_def Let_def)

lemma split_position_gross_quantity:
  "n \<noteq> 0 \<Longrightarrow> gross_quantity (snd (split_position u m a n i w)) k =
     gross_quantity w k + (if positionId_of u m (int i) = k then a else 0)"
  using get_gross_quantity [of w u m "int i"]
  by (simp add: split_position_def bigint_div_def Let_def positions_save get_position_id
      gross_quantity_def)

lemma split_position_gross_value:
  "n \<noteq> 0 \<Longrightarrow> gross_value (snd (split_position u m a n i w)) k =
     gross_value w k + (if positionId_of u m (int i) = k then trunc_quot a n else 0)"
  using get_gross_value [of w u m "int i"]
  by (simp add: split_position_def bigint_div_def Let_def positions_save get_position_id
      gross_value_def)

lemma merge_position_gross_quantity:
  "n \<noteq> 0 \<Longrightarrow> gross_quantity (snd (merge_position u m a n i w)) k =
     gross_quantity w k - (if positionId_of u m (int i) = k then a else 0)"
  using get_gross_quantity [of w u m "int i"]
  by (simp add: merge_position_def bigint_div_def Let_def positions_save get_position_id
      gross_quantity_def)

lemma merge_position_gross_value:
  "n \<noteq> 0 \<Longrightarrow> gross_value (snd (merge_position u m a n i w)) k =
     gross_value w k - (if positionId_of u m (int i) = k then trunc_quot a n else 0)"
  using get_gross_value [of w u m "int i"]
  by (simp add: merge_position_def bigint_div_def Let_def positions_save get_position_id
      gross_value_def)

lemma merge_position_saves:
  "n \<noteq> 0 \<Longrightarrow> saved_reconciled (snd (merge_position u m a n i w)) (positionId_of u m (int i))"
  by (simp add: merge_position_def bigint_div_def Let_def positions_save get_position_id
      saved_reconciled_def reconciled_def)

lemma merge_position_keeps_saved:
  "saved_reconciled w k \<Longrightarrow> saved_reconciled (snd (merge_position u m a n i w)) k"
  by (simp add: merge_position_def bigint_div_def Let_def positions_save get_position_id
      saved_reconciled_def reconciled_def)

lemma split_position_marketMakers:
  "marketMakers (snd (split_position u m a n i w)) = marketMakers w"
  by (simp add: split_position_def bigint_div_def Let_def others_save)

subsection \<open>Loops that add up\<close>

lemma for_each_all_return:
  assumes "\<And>i w. fst (body i w) = Returned"
  shows "fst (for_each body xs w) = Returned"
proof (induction xs arbitrary: w)
  case Nil
  then show ?case by simp
next
  case (Cons i xs)
  obtain r w' where b: "body i w = (r, w')" by (cases "body i w")
  with assms [of i w] have "r = Returned" by simp
  with b Cons.IH [of w'] show ?case by simp
qed

lemma for_each_adds:
  fixes g :: "world \<Rightarrow> string \<Rightarrow> int"
  assumes "\<And>i w. fst (body i w) = Returned"
      and "\<And>i w. g (snd (body i w)) k = g w k + (if key i = k then d else 0)"
  shows "g (snd (for_each body xs w)) k = g w k + d * int (length (filter (\<lambda>i. key i = k) xs))"
proof (induction xs arbitrary: w)
  case Nil
  then show ?case by simp
next
  case (Cons i xs)
  obtain r w' where b: "body i w = (r, w')" by (cases "body i w")
  with assms(1) [of i w] have r: "r = Returned" by simp
  from assms(2) [of i w] b have "g w' k = g w k + (if key i = k then d else 0)" by simp
  with b r Cons.IH [of w'] show ?case by (simp add: algebra_simps)
qed

lemma for_each_touches:
  assumes "\<And>i w. fst (body i w) = Returned"
      and "\<And>i w. T (snd (body i w)) (key i)"
      and "\<And>i w k. T w k \<Longrightarrow> T (snd (body i w)) k"
  shows "(\<forall>i\<in>set xs. T (snd (for_each body xs w)) (key i))
         \<and> (\<forall>k. T w k \<longrightarrow> T (snd (for_each body xs w)) k)"
proof (induction xs arbitrary: w)
  case Nil
  then show ?case by simp
next
  case (Cons i xs)
  obtain r w' where b: "body i w = (r, w')" by (cases "body i w")
  with assms(1) [of i w] have r: "r = Returned" by simp
  from assms(2) [of i w] b have here: "T w' (key i)" by simp
  from assms(3) [of w _ i] b have keep: "\<And>k. T w k \<Longrightarrow> T w' k" by simp
  from b r have run: "for_each body (i # xs) w = for_each body xs w'" by simp
  from Cons.IH [of w'] here keep show ?case unfolding run by auto
qed

subsection \<open>Split and then merge\<close>

lemma split_loop_marketMakers:
  "marketMakers (snd (for_each (split_position u m a n) xs w)) = marketMakers w"
proof -
  have "(\<lambda>w'. marketMakers w' = marketMakers w) (snd (for_each (split_position u m a n) xs w))"
    by (rule for_each_preserves) (simp_all add: split_position_marketMakers)
  then show ?thesis .
qed

lemma split_marketMakers:
  "marketMakers (snd (updateMarketPositionsFromSplit m u a w)) = marketMakers w"
  by (simp add: updateMarketPositionsFromSplit_def Let_def split_loop_marketMakers
      split: option.splits)

lemma split_merge_loops:
  fixes n a :: int and u m :: string and xs :: "nat list" and w :: world
  assumes "n \<noteq> 0"
  defines "w1 \<equiv> snd (for_each (split_position u m a n) xs w)"
  defines "w2 \<equiv> snd (for_each (merge_position u m a n) xs w1)"
  shows "fst (for_each (split_position u m a n) xs w) = Returned"
    and "fst (for_each (merge_position u m a n) xs w1) = Returned"
    and "gross_quantity w2 k = gross_quantity w k"
    and "gross_value w2 k = gross_value w k"
    and "\<forall>i\<in>set xs. saved_reconciled w2 (positionId_of u m (int i))"
proof -
  let ?key = "\<lambda>i. positionId_of u m (int i)"
  let ?c = "int (length (filter (\<lambda>i. ?key i = k) xs))"
  show "fst (for_each (split_position u m a n) xs w) = Returned"
    by (rule for_each_all_return) (simp add: split_position_returns assms(1))
  show "fst (for_each (merge_position u m a n) xs w1) = Returned"
    by (rule for_each_all_return) (simp add: merge_position_returns assms(1))
  have q1: "gross_quantity w1 k = gross_quantity w k + a * ?c"
    unfolding w1_def
    by (rule for_each_adds)
      (simp_all add: split_position_returns split_position_gross_quantity assms(1))
  have q2: "gross_quantity w2 k = gross_quantity w1 k + (- a) * ?c"
    unfolding w2_def
    by (rule for_each_adds)
      (simp_all add: merge_position_returns merge_position_gross_quantity assms(1))
  from q1 q2 show "gross_quantity w2 k = gross_quantity w k" by simp
  have v1: "gross_value w1 k = gross_value w k + trunc_quot a n * ?c"
    unfolding w1_def
    by (rule for_each_adds)
      (simp_all add: split_position_returns split_position_gross_value assms(1))
  have v2: "gross_value w2 k = gross_value w1 k + (- trunc_quot a n) * ?c"
    unfolding w2_def
    by (rule for_each_adds)
      (simp_all add: merge_position_returns merge_position_gross_value assms(1))
  from v1 v2 show "gross_value w2 k = gross_value w k" by simp
  have "(\<forall>i\<in>set xs. saved_reconciled (snd (for_each (merge_position u m a n) xs w1)) (?key i))
        \<and> (\<forall>k. saved_reconciled w1 k \<longrightarrow>
              saved_reconciled (snd (for_each (merge_position u m a n) xs w1)) k)"
    by (rule for_each_touches)
      (simp_all add: merge_position_returns merge_position_saves merge_position_keeps_saved
        assms(1))
  then show "\<forall>i\<in>set xs. saved_reconciled w2 (?key i)"
    unfolding w2_def by blast
qed

text \<open>
  The round trip for one position that is reconciled before the split: both handlers
  return and the net fields of the position are what they were.
\<close>

lemma split_then_merge_reconciled:
  assumes "marketMakers w m = Some marketMaker"
      and "i < nat (outcomeSlotCount marketMaker)"
      and "reconciled (getMarketPosition w u m (int i))"
  shows "fst (updateMarketPositionsFromSplit m u a w) = Returned
     \<and> fst (updateMarketPositionsFromMerge m u a
              (snd (updateMarketPositionsFromSplit m u a w))) = Returned
     \<and> netQuantity (getMarketPosition
          (snd (updateMarketPositionsFromMerge m u a
             (snd (updateMarketPositionsFromSplit m u a w)))) u m (int i))
        = netQuantity (getMarketPosition w u m (int i))
     \<and> netValue (getMarketPosition
          (snd (updateMarketPositionsFromMerge m u a
             (snd (updateMarketPositionsFromSplit m u a w)))) u m (int i))
        = netValue (getMarketPosition w u m (int i))"
proof -
  let ?n = "outcomeSlotCount marketMaker"
  let ?xs = "[0 ..< nat ?n]"
  let ?k = "positionId_of u m (int i)"
  define w1 where "w1 = snd (for_each (split_position u m a ?n) ?xs w)"
  define w2 where "w2 = snd (for_each (merge_position u m a ?n) ?xs w1)"
  from assms(2) have n: "?n \<noteq> 0" and i: "i \<in> set ?xs" by auto
  have split_eq: "updateMarketPositionsFromSplit m u a w = for_each (split_position u m a ?n) ?xs w"
    using assms(1) by (simp add: updateMarketPositionsFromSplit_def Let_def)
  have "marketMakers w1 m = Some marketMaker"
    using assms(1) by (simp add: w1_def split_loop_marketMakers)
  then have merge_eq: "updateMarketPositionsFromMerge m u a w1 =
      for_each (merge_position u m a ?n) ?xs w1"
    by (simp add: updateMarketPositionsFromMerge_def Let_def)
  note loops = split_merge_loops [OF n, where u = u and m = m and a = a and xs = ?xs and w = w,
      folded w1_def, folded w2_def]
  from loops(5) i have "saved_reconciled w2 ?k" by blast
  then have after: "netQuantity (getMarketPosition w2 u m (int i)) = gross_quantity w2 ?k"
      "netValue (getMarketPosition w2 u m (int i)) = gross_value w2 ?k"
    by (simp_all add: get_saved_reconciled)
  from assms(3) have before: "netQuantity (getMarketPosition w u m (int i)) = gross_quantity w ?k"
      "netValue (getMarketPosition w u m (int i)) = gross_value w ?k"
    by (simp_all add: get_reconciled)
  from loops(1,2) after before loops(3) [of ?k] loops(4) [of ?k]
  show ?thesis
    by (simp add: split_eq merge_eq w1_def [symmetric] w2_def [symmetric])
qed

lemmas split_merge_eval = updateMarketPositionsFromSplit_def updateMarketPositionsFromMerge_def
  binary_world_def empty_world_def upt_rec
  split_position_def merge_position_def bigint_div_def trunc_quot_def getMarketPosition_eq
  positionId_of_def positions_save others_save toString_small Let_def

text \<open>
  C4. In every store that a run of events reaches from a reconciled store (the empty
  store is one), whatever the positions have become: on a market with \<open>N \<ge> 1\<close> outcome
  slots, for every amount and every outcome index below \<open>N\<close>, the split and then the
  merge of the same amount both return, and the position's \<open>netQuantity\<close> and
  \<open>netValue\<close> are what they were before the split.
\<close>

theorem split_then_merge_round_trip:
  fixes w0 :: world and es :: "event list"
  defines "w \<equiv> run_events es w0"
  assumes "store_reconciled w0"
      and "marketMakers w m = Some marketMaker"
      and "i < nat (outcomeSlotCount marketMaker)"
  shows "fst (updateMarketPositionsFromSplit m u a w) = Returned
     \<and> fst (updateMarketPositionsFromMerge m u a
              (snd (updateMarketPositionsFromSplit m u a w))) = Returned
     \<and> netQuantity (getMarketPosition
          (snd (updateMarketPositionsFromMerge m u a
             (snd (updateMarketPositionsFromSplit m u a w)))) u m (int i))
        = netQuantity (getMarketPosition w u m (int i))
     \<and> netValue (getMarketPosition
          (snd (updateMarketPositionsFromMerge m u a
             (snd (updateMarketPositionsFromSplit m u a w)))) u m (int i))
        = netValue (getMarketPosition w u m (int i))"
proof -
  have "store_reconciled w"
    unfolding w_def using assms(2) by (rule run_events_reconciled)
  then have "reconciled (getMarketPosition w u m (int i))"
    by (rule store_reconciled_get)
  with assms(3,4) show ?thesis
    by (rule split_then_merge_reconciled)
qed

theorem split_then_merge_round_trip_witness:
  "store_reconciled binary_world
   \<and> six_fields (getMarketPosition
        (run_events [PositionSplit ''m'' ''u'' 10] binary_world) ''u'' ''m'' 1) = (10, 0, 10, 5, 0, 5)
   \<and> six_fields (getMarketPosition
        (snd (updateMarketPositionsFromMerge ''m'' ''u'' 4
           (snd (updateMarketPositionsFromSplit ''m'' ''u'' 4
              (run_events [PositionSplit ''m'' ''u'' 10] binary_world))))) ''u'' ''m'' 1)
       = (14, 4, 10, 7, 2, 5)"
proof -
  have start: "store_reconciled binary_world"
    by (simp add: store_reconciled_def binary_world_def empty_world_def)
  have market: "marketMakers (run_events [PositionSplit ''m'' ''u'' 10] binary_world) ''m''
      = Some \<lparr>outcomeSlotCount = 2\<rparr>"
    by (simp add: split_marketMakers binary_world_def empty_world_def)
  from split_then_merge_round_trip [OF start market, of 1 "''u''" 4] start
  show ?thesis
    by (simp add: split_merge_eval six_fields_def)
qed

subsection \<open>Redemption of reconciled positions\<close>

lemma redeem_position_eq:
  assumes "0 \<le> s" and "s < int (length ns)" and "s < 2 ^ 31" and "d \<noteq> 0"
  shows "redeem_position u m ns d s w =
     (Returned,
      updateNetPositionAndSave
        ((getMarketPosition w u m s)\<lparr>
           quantitySold := quantitySold (getMarketPosition w u m s)
                           + netQuantity (getMarketPosition w u m s),
           valueSold := valueSold (getMarketPosition w u m s)
                        + trunc_quot (netQuantity (getMarketPosition w u m s) * ns ! nat s) d\<rparr>) w)"
  using assms by (simp add: redeem_position_def toI32_small array_get_def bigint_div_def Let_def)

text \<open>A turn that does not return has saved nothing; one that returns has saved once.\<close>

lemma redeem_position_stops:
  "fst (redeem_position u m ns d s w) \<noteq> Returned \<Longrightarrow> snd (redeem_position u m ns d s w) = w"
  by (auto simp: redeem_position_def bigint_div_def Let_def split: sum.splits if_splits)

lemma redeem_position_done:
  assumes "fst (redeem_position u m ns d s w) = Returned"
  shows "\<exists>numerator. snd (redeem_position u m ns d s w) =
     updateNetPositionAndSave
        ((getMarketPosition w u m s)\<lparr>
           quantitySold := quantitySold (getMarketPosition w u m s)
                           + netQuantity (getMarketPosition w u m s),
           valueSold := valueSold (getMarketPosition w u m s)
                        + trunc_quot (netQuantity (getMarketPosition w u m s) * numerator) d\<rparr>) w"
  using assms
  by (auto simp: redeem_position_def bigint_div_def Let_def split: sum.splits if_splits)

lemma get_quantity_reconciled:
  "quantity_reconciled w (positionId_of u m i) \<longleftrightarrow>
     netQuantity (getMarketPosition w u m i) =
       quantityBought (getMarketPosition w u m i) - quantitySold (getMarketPosition w u m i)"
  by (simp add: getMarketPosition_eq quantity_reconciled_def split: option.splits)

lemma get_saved_zero:
  "saved_zero w (positionId_of u m i) \<Longrightarrow> netQuantity (getMarketPosition w u m i) = 0"
  by (simp add: getMarketPosition_eq saved_zero_def split: option.splits)

lemma redeem_position_zeroes:
  assumes "fst (redeem_position u m ns d s w) = Returned"
      and "quantity_reconciled w (positionId_of u m s)"
  shows "saved_zero (snd (redeem_position u m ns d s w)) (positionId_of u m s)"
proof -
  from redeem_position_done [OF assms(1)] obtain numerator where
    "snd (redeem_position u m ns d s w) =
     updateNetPositionAndSave
        ((getMarketPosition w u m s)\<lparr>
           quantitySold := quantitySold (getMarketPosition w u m s)
                           + netQuantity (getMarketPosition w u m s),
           valueSold := valueSold (getMarketPosition w u m s)
                        + trunc_quot (netQuantity (getMarketPosition w u m s) * numerator) d\<rparr>) w"
    by blast
  with assms(2) [unfolded get_quantity_reconciled] show ?thesis
    by (simp add: positions_save get_position_id saved_zero_def)
qed

lemma redeem_position_keeps_zero:
  assumes "saved_zero w k"
  shows "saved_zero (snd (redeem_position u m ns d s w)) k"
proof (cases "fst (redeem_position u m ns d s w) = Returned")
  case True
  from redeem_position_done [OF True] obtain numerator where
    "snd (redeem_position u m ns d s w) =
     updateNetPositionAndSave
        ((getMarketPosition w u m s)\<lparr>
           quantitySold := quantitySold (getMarketPosition w u m s)
                           + netQuantity (getMarketPosition w u m s),
           valueSold := valueSold (getMarketPosition w u m s)
                        + trunc_quot (netQuantity (getMarketPosition w u m s) * numerator) d\<rparr>) w"
    by blast
  with assms show ?thesis
    by (auto simp: positions_save get_position_id saved_zero_def getMarketPosition_eq
        split: option.splits)
next
  case False
  with assms show ?thesis by (simp add: redeem_position_stops)
qed

lemma redeem_position_keeps_reconciled:
  assumes "quantity_reconciled w k"
  shows "quantity_reconciled (snd (redeem_position u m ns d s w)) k"
proof (cases "fst (redeem_position u m ns d s w) = Returned")
  case True
  from redeem_position_done [OF True] obtain numerator where
    "snd (redeem_position u m ns d s w) =
     updateNetPositionAndSave
        ((getMarketPosition w u m s)\<lparr>
           quantitySold := quantitySold (getMarketPosition w u m s)
                           + netQuantity (getMarketPosition w u m s),
           valueSold := valueSold (getMarketPosition w u m s)
                        + trunc_quot (netQuantity (getMarketPosition w u m s) * numerator) d\<rparr>) w"
    by blast
  with assms show ?thesis
    by (simp add: positions_save get_position_id quantity_reconciled_def)
next
  case False
  with assms show ?thesis by (simp add: redeem_position_stops)
qed

text \<open>
  The loop: when it returns, every redeemed slot is left with nothing; and what was
  left with nothing stays so, wherever the loop stops.
\<close>

lemma redemption_loop_zeroes:
  assumes "\<forall>k. quantity_reconciled w k"
  shows "(fst (for_each (redeem_position u m ns d) xs w) = Returned \<longrightarrow>
            (\<forall>s\<in>set xs. saved_zero (snd (for_each (redeem_position u m ns d) xs w))
                            (positionId_of u m s)))
     \<and> (\<forall>k. saved_zero w k \<longrightarrow> saved_zero (snd (for_each (redeem_position u m ns d) xs w)) k)"
  using assms
proof (induction xs arbitrary: w)
  case Nil
  then show ?case by simp
next
  case (Cons s xs)
  define r where "r = fst (redeem_position u m ns d s w)"
  define w1 where "w1 = snd (redeem_position u m ns d s w)"
  have step: "redeem_position u m ns d s w = (r, w1)"
    by (simp add: r_def w1_def)
  have keep: "\<And>k. saved_zero w k \<Longrightarrow> saved_zero w1 k"
    unfolding w1_def by (rule redeem_position_keeps_zero)
  show ?case
  proof (cases r)
    case Returned
    have here: "saved_zero w1 (positionId_of u m s)"
      unfolding w1_def using Cons.prems Returned
      by (simp add: redeem_position_zeroes r_def)
    have "\<forall>k. quantity_reconciled w1 k"
      unfolding w1_def using Cons.prems by (simp add: redeem_position_keeps_reconciled)
    from Cons.IH [OF this] here keep Returned show ?thesis
      by (simp add: step)
  next
    case (Faulted f)
    with keep show ?thesis by (simp add: step)
  qed
qed

lemmas redemption_eval = updateMarketPositionsFromRedemption_def redeem_position_def
  updateMarketPositionsFromSplit_def split_position_def upt_rec
  binary_world_def empty_world_def toI32_small
  array_get_def bigint_div_def trunc_quot_def getMarketPosition_eq positionId_of_def
  positions_save others_save toString_small Let_def

text \<open>
  C2. In every store that a run of events reaches from a reconciled store, for every
  redemption event against a resolved condition and every redeemed slot, whatever the
  position has become: the turn of the loop for a slot that is an index of
  \<open>payoutNumerators\<close> (with a nonzero denominator) returns and adds
  \<open>netQuantity * payoutNumerators[slot] / payoutDenominator\<close>, rounded towards zero, to
  \<open>valueSold\<close>; a turn that returns has added the prior \<open>netQuantity\<close> to
  \<open>quantitySold\<close> and left \<open>netQuantity = 0\<close>; the handler returns when every
  redeemed slot is such an index; and when the handler returns, the position of every
  redeemed slot has \<open>netQuantity = 0\<close>.
\<close>

theorem redemption_zeroes_position:
  fixes w0 :: world and es :: "event list"
  defines "w \<equiv> run_events es w0"
  assumes "store_reconciled w0"
      and "conditions w conditionId = Some c"
      and "payoutNumerators c = Some numerators"
      and "payoutDenominator c = Some denominator"
      and "slot \<in> set indexSets"
  shows "(0 \<le> slot \<and> slot < int (length numerators) \<and> slot < 2 ^ 31 \<and> denominator \<noteq> 0 \<longrightarrow>
           fst (redeem_position u m numerators denominator slot w) = Returned
           \<and> valueSold (getMarketPosition
                 (snd (redeem_position u m numerators denominator slot w)) u m slot)
               = valueSold (getMarketPosition w u m slot)
                 + trunc_quot (netQuantity (getMarketPosition w u m slot) * numerators ! nat slot)
                     denominator)
     \<and> (fst (redeem_position u m numerators denominator slot w) = Returned \<longrightarrow>
           quantitySold (getMarketPosition
                 (snd (redeem_position u m numerators denominator slot w)) u m slot)
               = quantitySold (getMarketPosition w u m slot)
                 + netQuantity (getMarketPosition w u m slot)
           \<and> netQuantity (getMarketPosition
                 (snd (redeem_position u m numerators denominator slot w)) u m slot) = 0)
     \<and> ((\<forall>s\<in>set indexSets. 0 \<le> s \<and> s < int (length numerators) \<and> s < 2 ^ 31)
            \<and> denominator \<noteq> 0 \<longrightarrow>
           fst (updateMarketPositionsFromRedemption m u indexSets conditionId w) = Returned)
     \<and> (fst (updateMarketPositionsFromRedemption m u indexSets conditionId w) = Returned \<longrightarrow>
           netQuantity (getMarketPosition
             (snd (updateMarketPositionsFromRedemption m u indexSets conditionId w)) u m slot) = 0)"
proof -
  have store: "store_reconciled w"
    unfolding w_def using assms(2) by (rule run_events_reconciled)
  then have rec: "netQuantity (getMarketPosition w u m slot) =
      quantityBought (getMarketPosition w u m slot) - quantitySold (getMarketPosition w u m slot)"
    using store_reconciled_get [of w u m slot] by (simp add: reconciled_def)
  have in_range: "0 \<le> slot \<and> slot < int (length numerators) \<and> slot < 2 ^ 31 \<and> denominator \<noteq> 0 \<longrightarrow>
           fst (redeem_position u m numerators denominator slot w) = Returned
           \<and> valueSold (getMarketPosition
                 (snd (redeem_position u m numerators denominator slot w)) u m slot)
               = valueSold (getMarketPosition w u m slot)
                 + trunc_quot (netQuantity (getMarketPosition w u m slot) * numerators ! nat slot)
                     denominator"
  proof
    assume ok: "0 \<le> slot \<and> slot < int (length numerators) \<and> slot < 2 ^ 31 \<and> denominator \<noteq> 0"
    then have turn: "redeem_position u m numerators denominator slot w =
     (Returned,
      updateNetPositionAndSave
        ((getMarketPosition w u m slot)\<lparr>
           quantitySold := quantitySold (getMarketPosition w u m slot)
                           + netQuantity (getMarketPosition w u m slot),
           valueSold := valueSold (getMarketPosition w u m slot)
                        + trunc_quot (netQuantity (getMarketPosition w u m slot)
                            * numerators ! nat slot) denominator\<rparr>) w)"
      by (simp add: redeem_position_eq)
    show "fst (redeem_position u m numerators denominator slot w) = Returned
           \<and> valueSold (getMarketPosition
                 (snd (redeem_position u m numerators denominator slot w)) u m slot)
               = valueSold (getMarketPosition w u m slot)
                 + trunc_quot (netQuantity (getMarketPosition w u m slot) * numerators ! nat slot)
                     denominator"
      by (simp add: turn positions_save get_position_id
          getMarketPosition_eq [of "updateNetPositionAndSave p w'" for p w'])
  qed
  have returned: "fst (redeem_position u m numerators denominator slot w) = Returned \<longrightarrow>
           quantitySold (getMarketPosition
                 (snd (redeem_position u m numerators denominator slot w)) u m slot)
               = quantitySold (getMarketPosition w u m slot)
                 + netQuantity (getMarketPosition w u m slot)
           \<and> netQuantity (getMarketPosition
                 (snd (redeem_position u m numerators denominator slot w)) u m slot) = 0"
  proof
    assume "fst (redeem_position u m numerators denominator slot w) = Returned"
    from redeem_position_done [OF this] obtain numerator where
      turn: "snd (redeem_position u m numerators denominator slot w) =
       updateNetPositionAndSave
        ((getMarketPosition w u m slot)\<lparr>
           quantitySold := quantitySold (getMarketPosition w u m slot)
                           + netQuantity (getMarketPosition w u m slot),
           valueSold := valueSold (getMarketPosition w u m slot)
                        + trunc_quot (netQuantity (getMarketPosition w u m slot) * numerator)
                            denominator\<rparr>) w"
      by blast
    show "quantitySold (getMarketPosition
                 (snd (redeem_position u m numerators denominator slot w)) u m slot)
               = quantitySold (getMarketPosition w u m slot)
                 + netQuantity (getMarketPosition w u m slot)
           \<and> netQuantity (getMarketPosition
                 (snd (redeem_position u m numerators denominator slot w)) u m slot) = 0"
      using rec
      by (simp add: turn positions_save get_position_id
          getMarketPosition_eq [of "updateNetPositionAndSave p w'" for p w'])
  qed
  have handler_eq: "updateMarketPositionsFromRedemption m u indexSets conditionId w =
      for_each (redeem_position u m numerators denominator) indexSets w"
    using assms(3-5) by (simp add: updateMarketPositionsFromRedemption_def)
  have all_in_range: "(\<forall>s\<in>set indexSets. 0 \<le> s \<and> s < int (length numerators) \<and> s < 2 ^ 31)
            \<and> denominator \<noteq> 0 \<longrightarrow>
           fst (updateMarketPositionsFromRedemption m u indexSets conditionId w) = Returned"
  proof
    assume ok: "(\<forall>s\<in>set indexSets. 0 \<le> s \<and> s < int (length numerators) \<and> s < 2 ^ 31)
            \<and> denominator \<noteq> 0"
    have "fst (for_each (redeem_position u m numerators denominator) indexSets w) = Returned
      \<longleftrightarrow> (\<forall>s\<in>set indexSets.
            (\<exists>i. toI32 s = Inr i \<and> 0 \<le> i \<and> i < int (length numerators)) \<and> denominator \<noteq> 0)"
      by (rule for_each_returns) (rule redeem_position_returns)
    moreover have "\<forall>s\<in>set indexSets.
            (\<exists>i. toI32 s = Inr i \<and> 0 \<le> i \<and> i < int (length numerators)) \<and> denominator \<noteq> 0"
    proof
      fix s assume "s \<in> set indexSets"
      with ok have s: "0 \<le> s" "s < int (length numerators)" "s < 2 ^ 31" by auto
      from s(1) have "- (2 ^ 31) \<le> s" by simp
      then have "toI32 s = Inr s" using s(3) by (rule toI32_small)
      with s ok show "(\<exists>i. toI32 s = Inr i \<and> 0 \<le> i \<and> i < int (length numerators))
          \<and> denominator \<noteq> 0"
        by simp
    qed
    ultimately show "fst (updateMarketPositionsFromRedemption m u indexSets conditionId w) = Returned"
      by (simp add: handler_eq)
  qed
  have "\<forall>k. quantity_reconciled w k"
    using store by (simp add: store_quantity_reconciled)
  from redemption_loop_zeroes [OF this, of u m numerators denominator indexSets] assms(6)
  have "fst (for_each (redeem_position u m numerators denominator) indexSets w) = Returned \<longrightarrow>
      saved_zero (snd (for_each (redeem_position u m numerators denominator) indexSets w))
        (positionId_of u m slot)"
    by blast
  then have whole: "fst (updateMarketPositionsFromRedemption m u indexSets conditionId w) = Returned \<longrightarrow>
           netQuantity (getMarketPosition
             (snd (updateMarketPositionsFromRedemption m u indexSets conditionId w)) u m slot) = 0"
    by (simp add: handler_eq get_saved_zero)
  from in_range returned all_in_range whole show ?thesis by blast
qed

theorem redemption_zeroes_position_witness:
  "store_reconciled binary_world
   \<and> six_fields (getMarketPosition
        (run_events [PositionSplit ''m'' ''u'' 10] binary_world) ''u'' ''m'' 0) = (10, 0, 10, 5, 0, 5)
   \<and> fst (updateMarketPositionsFromRedemption ''m'' ''u'' [0, 1] ''c''
        (run_events [PositionSplit ''m'' ''u'' 10] binary_world)) = Returned
   \<and> six_fields (getMarketPosition
        (snd (updateMarketPositionsFromRedemption ''m'' ''u'' [0, 1] ''c''
           (run_events [PositionSplit ''m'' ''u'' 10] binary_world))) ''u'' ''m'' 0)
       = (10, 10, 0, 5, 10, - 5)"
proof -
  have start: "store_reconciled binary_world"
    by (simp add: store_reconciled_def binary_world_def empty_world_def)
  have condition: "conditions (run_events [PositionSplit ''m'' ''u'' 10] binary_world) ''c'' =
      Some \<lparr>condition_id = ''c'', payoutNumerators = Some [1, 0], payoutDenominator = Some 1\<rparr>"
    by (simp add: redemption_eval)
  from redemption_zeroes_position [OF start condition, of "[1, 0]" 1 0 "[0, 1]" "''u''" "''m''"]
    start
  show ?thesis
    by (simp add: redemption_eval six_fields_def)
qed

subsection \<open>Liquidity added with nothing to refund\<close>

lemma totalRefunded_from_equal:
  "\<forall>a\<in>set xs. a = c \<Longrightarrow> totalRefundedOutcomeTokens_from c xs subtotal = subtotal"
  by (induction xs arbitrary: subtotal) simp_all

lemma addedFunds_of_equal:
  assumes "xs \<noteq> []" and "\<forall>a\<in>set xs. a = c"
  shows "addedFunds_of xs = Inr c"
proof -
  from assms have s: "set xs = {c}" by (cases xs) auto
  then have "fits_i32 xs" by (simp add: fits_i32_def)
  with assms(1) s show ?thesis by (simp add: addedFunds_of_max)
qed

lemma reconciled_six_fields:
  "six_fields p = six_fields q \<Longrightarrow> reconciled p = reconciled q"
  by (simp add: six_fields_def reconciled_def)

lemma refund_position_no_excess:
  assumes "i < length amounts" and "amounts ! i = c"
      and "reconciled (getMarketPosition w u m (int i))"
  shows "fst (refund_position u m amounts c tv 0 i w) = Returned
         \<and> (\<forall>k. stored_fields (snd (refund_position u m amounts c tv 0 i w)) k = stored_fields w k)"
  using assms get_six_fields [of w u m "int i"]
  by (simp add: refund_position_def array_get_def refundValue_of_def Let_def positions_save
      get_position_id stored_fields_def six_fields_def reconciled_def)

lemma refund_loop_no_excess:
  assumes "\<forall>a\<in>set amounts. a = c"
      and "\<forall>i\<in>set xs. i < length amounts"
      and "\<forall>i\<in>set xs. reconciled (getMarketPosition w u m (int i))"
  shows "fst (for_each (refund_position u m amounts c tv 0) xs w) = Returned
         \<and> (\<forall>k. stored_fields (snd (for_each (refund_position u m amounts c tv 0) xs w)) k
                 = stored_fields w k)"
  using assms(2,3)
proof (induction xs arbitrary: w)
  case Nil
  then show ?case by simp
next
  case (Cons i xs)
  define w1 where "w1 = snd (refund_position u m amounts c tv 0 i w)"
  from Cons.prems(1) have i: "i < length amounts" by simp
  with assms(1) have "amounts ! i = c" by simp
  from refund_position_no_excess [OF i this, of w u m tv] Cons.prems(2)
  have step: "refund_position u m amounts c tv 0 i w = (Returned, w1)"
    and same: "\<And>k. stored_fields w1 k = stored_fields w k"
    by (simp_all add: w1_def prod_eq_iff)
  have "\<forall>j\<in>set xs. reconciled (getMarketPosition w1 u m (int j))"
  proof
    fix j assume "j \<in> set xs"
    with Cons.prems(2) have "reconciled (getMarketPosition w u m (int j))" by simp
    moreover have "six_fields (getMarketPosition w1 u m (int j)) =
        six_fields (getMarketPosition w u m (int j))"
      by (simp add: get_six_fields same)
    ultimately show "reconciled (getMarketPosition w1 u m (int j))"
      using reconciled_six_fields by blast
  qed
  moreover from Cons.prems(1) have "\<forall>i\<in>set xs. i < length amounts" by simp
  ultimately show ?case using Cons.IH [of w1] same by (simp add: step)
qed

text \<open>
  Nothing to refund, on positions that are reconciled before the event: nothing the
  store holds changes in any of its six numbers.
\<close>

lemma liquidity_added_no_excess_reconciled:
  assumes "\<forall>a\<in>set amountsAdded. a = sharesMinted"
      and "\<forall>i<length amountsAdded. reconciled (getMarketPosition w funder fpmm (int i))"
  shows "addedFunds_of amountsAdded =
           (if amountsAdded = [] then Inl EmptyArray else Inr sharesMinted)
     \<and> totalRefundedOutcomeTokens_of sharesMinted amountsAdded = 0
     \<and> refundValue_of totalRefundedValue
           (totalRefundedOutcomeTokens_of sharesMinted amountsAdded) refundedAmount = Inr 0
     \<and> fst (updateMarketPositionFromLiquidityAdded fpmm funder amountsAdded sharesMinted w) =
           (if amountsAdded = [] then Faulted EmptyArray else Returned)
     \<and> (\<forall>i<length amountsAdded.
           six_fields (getMarketPosition
             (snd (updateMarketPositionFromLiquidityAdded fpmm funder amountsAdded sharesMinted w))
             funder fpmm (int i))
           = six_fields (getMarketPosition w funder fpmm (int i)))
     \<and> (\<forall>k. stored_fields
           (snd (updateMarketPositionFromLiquidityAdded fpmm funder amountsAdded sharesMinted w)) k
           = stored_fields w k)"
proof -
  have total: "totalRefundedOutcomeTokens_of sharesMinted amountsAdded = 0"
    using assms(1) by (simp add: totalRefundedOutcomeTokens_of_def totalRefunded_from_equal)
  have added: "addedFunds_of amountsAdded =
           (if amountsAdded = [] then Inl EmptyArray else Inr sharesMinted)"
    using assms(1) by (simp add: addedFunds_of_empty addedFunds_of_equal)
  have loop: "fst (for_each (refund_position funder fpmm amountsAdded sharesMinted 0 0)
                 [0 ..< length amountsAdded] w) = Returned
         \<and> (\<forall>k. stored_fields (snd (for_each
                 (refund_position funder fpmm amountsAdded sharesMinted 0 0)
                 [0 ..< length amountsAdded] w)) k = stored_fields w k)"
    by (rule refund_loop_no_excess) (use assms in simp_all)
  have handler: "fst (updateMarketPositionFromLiquidityAdded fpmm funder amountsAdded sharesMinted w) =
           (if amountsAdded = [] then Faulted EmptyArray else Returned)
     \<and> (\<forall>k. stored_fields
           (snd (updateMarketPositionFromLiquidityAdded fpmm funder amountsAdded sharesMinted w)) k
           = stored_fields w k)"
    using loop by (simp add: updateMarketPositionFromLiquidityAdded_def added total Let_def)
  then show ?thesis
    by (simp add: added total refundValue_of_def get_six_fields)
qed

lemma added_equal_example: "addedFunds_of [100, 100] = Inr 100"
  by (simp add: addedFunds_of_def array_sort_def compareAmounts_def toI32_small array_pop_def)

lemmas liquidity_eval = updateMarketPositionFromLiquidityAdded_def added_equal_example
  totalRefundedOutcomeTokens_of_def refund_position_def refundValue_of_def upt_rec
  updateMarketPositionsFromSplit_def split_position_def
  binary_world_def empty_world_def
  array_get_def bigint_div_def trunc_quot_def getMarketPosition_eq positionId_of_def
  positions_save others_save toString_small Let_def six_fields_def

text \<open>
  C9. In every store that a run of events reaches from a reconciled store, for every
  liquidity-added event in which every element of \<open>amountsAdded\<close> equals
  \<open>sharesMinted\<close>: \<open>addedFunds\<close> is \<open>sharesMinted\<close> and
  \<open>totalRefundedOutcomeTokens\<close> is 0, so the division is not reached and
  \<open>refundValue\<close> is 0 whatever the refunded amount; the handler returns (on an empty
  array it stops at \<^verbatim>\<open>pop\<close>, before any position); and the six numbers of every
  affected position, and of everything the store holds, are what they were. An affected
  position that was not stored yet is saved with its six zeros.
\<close>

theorem liquidity_added_without_excess:
  fixes w0 :: world and es :: "event list"
  defines "w \<equiv> run_events es w0"
  assumes "store_reconciled w0"
      and "\<forall>a\<in>set amountsAdded. a = sharesMinted"
  shows "addedFunds_of amountsAdded =
           (if amountsAdded = [] then Inl EmptyArray else Inr sharesMinted)
     \<and> totalRefundedOutcomeTokens_of sharesMinted amountsAdded = 0
     \<and> refundValue_of totalRefundedValue
           (totalRefundedOutcomeTokens_of sharesMinted amountsAdded) refundedAmount = Inr 0
     \<and> fst (updateMarketPositionFromLiquidityAdded fpmm funder amountsAdded sharesMinted w) =
           (if amountsAdded = [] then Faulted EmptyArray else Returned)
     \<and> (\<forall>i<length amountsAdded.
           six_fields (getMarketPosition
             (snd (updateMarketPositionFromLiquidityAdded fpmm funder amountsAdded sharesMinted w))
             funder fpmm (int i))
           = six_fields (getMarketPosition w funder fpmm (int i)))
     \<and> (\<forall>k. stored_fields
           (snd (updateMarketPositionFromLiquidityAdded fpmm funder amountsAdded sharesMinted w)) k
           = stored_fields w k)"
proof -
  have "store_reconciled w"
    unfolding w_def using assms(2) by (rule run_events_reconciled)
  then have "\<forall>i<length amountsAdded. reconciled (getMarketPosition w funder fpmm (int i))"
    by (simp add: store_reconciled_get)
  with assms(3) show ?thesis
    by (rule liquidity_added_no_excess_reconciled)
qed

theorem liquidity_added_without_excess_witness:
  "store_reconciled binary_world
   \<and> six_fields (getMarketPosition
        (run_events [PositionSplit ''m'' ''u'' 10] binary_world) ''u'' ''m'' 0) = (10, 0, 10, 5, 0, 5)
   \<and> fst (updateMarketPositionFromLiquidityAdded ''m'' ''u'' [100, 100] 100
        (run_events [PositionSplit ''m'' ''u'' 10] binary_world)) = Returned
   \<and> six_fields (getMarketPosition
        (snd (updateMarketPositionFromLiquidityAdded ''m'' ''u'' [100, 100] 100
           (run_events [PositionSplit ''m'' ''u'' 10] binary_world))) ''u'' ''m'' 0)
       = (10, 0, 10, 5, 0, 5)"
proof -
  have start: "store_reconciled binary_world"
    by (simp add: store_reconciled_def binary_world_def empty_world_def)
  have equal: "\<forall>a\<in>set [100, 100 :: int]. a = 100" by simp
  from liquidity_added_without_excess [OF start equal, where totalRefundedValue = 0
      and refundedAmount = 0 and es = "[PositionSplit ''m'' ''u'' 10]" and fpmm = "''m''"
      and funder = "''u''"] start
  show ?thesis
    by (simp add: less_Suc_eq liquidity_eval)
qed

end
